theory Spec2Isabelle
  imports Complex_Main "HOL-Library.Word"
begin

section \<open>JavaScript strings\<close>

text \<open>
  A JavaScript string is a sequence of 16-bit code units.  String literals of the
  source are written with \<open>js\<close>, single characters with \<open>ch\<close>.
\<close>

type_synonym jschar = "16 word"
type_synonym jsstring = "jschar list"

definition ch :: "char \<Rightarrow> jschar" where
  "ch c = of_nat (of_char c)"

definition js :: "string \<Rightarrow> jsstring" where
  "js s = map ch s"

text \<open>
  \<open>String.prototype.trim\<close> and \<open>parseFloat\<close> strip the code units of the
  productions WhiteSpace and LineTerminator of ECMA-262: TAB, LF, VT, FF, CR, SP,
  NBSP, the Unicode space separators, LS, PS and the byte order mark.
\<close>

definition isWhiteSpace :: "jschar \<Rightarrow> bool" where
  "isWhiteSpace c \<longleftrightarrow>
     c = 0x09 \<or> c = 0x0A \<or> c = 0x0B \<or> c = 0x0C \<or> c = 0x0D \<or> c = 0x20 \<or> c = 0xA0 \<or>
     c = 0x1680 \<or> (0x2000 \<le> c \<and> c \<le> 0x200A) \<or> c = 0x2028 \<or> c = 0x2029 \<or>
     c = 0x202F \<or> c = 0x205F \<or> c = 0x3000 \<or> c = 0xFEFF"

definition trimStart :: "jsstring \<Rightarrow> jsstring" where
  "trimStart s = dropWhile isWhiteSpace s"

definition trim :: "jsstring \<Rightarrow> jsstring" where
  "trim s = rev (dropWhile isWhiteSpace (rev (dropWhile isWhiteSpace s)))"

definition isDigit :: "jschar \<Rightarrow> bool" where
  "isDigit c \<longleftrightarrow> 0x30 \<le> c \<and> c \<le> 0x39"

definition digitVal :: "jschar \<Rightarrow> int" where
  "digitVal c = uint c - 48"

definition digitsVal :: "jsstring \<Rightarrow> int" where
  "digitsVal ds = foldl (\<lambda>a c. 10 * a + digitVal c) 0 ds"

text \<open>The decimal digits of a non-negative integer, most significant first.\<close>

function decimalDigits :: "int \<Rightarrow> jsstring" where
  "decimalDigits n = (if n < 10 then [of_int (48 + n)]
                      else decimalDigits (n div 10) @ [of_int (48 + n mod 10)])"
  by pat_completeness auto
termination
  by (relation "measure nat") auto

declare decimalDigits.simps [simp del]

section \<open>JavaScript numbers\<close>

text \<open>
  A Number is NaN, one of the two infinities, or a finite value.  Finite values are
  carried as exact rationals: the rounding of IEEE 754 doubles (and the overflow of
  finite arithmetic into an infinity) is not part of the model, and the two zeros,
  which are \<open>===\<close> and print alike, are one value.
\<close>

datatype jsnum = NaN | PosInf | NegInf | Fin rat



fun js_neg :: "jsnum \<Rightarrow> jsnum" where
  "js_neg NaN = NaN"
| "js_neg PosInf = NegInf"
| "js_neg NegInf = PosInf"
| "js_neg (Fin a) = Fin (- a)"

fun Math_abs :: "jsnum \<Rightarrow> jsnum" where
  "Math_abs NaN = NaN"
| "Math_abs PosInf = PosInf"
| "Math_abs NegInf = PosInf"
| "Math_abs (Fin a) = Fin \<bar>a\<bar>"

definition isNaN :: "jsnum \<Rightarrow> bool" where
  "isNaN x \<longleftrightarrow> x = NaN"

definition pow10 :: "int \<Rightarrow> rat" where
  "pow10 k = (if 0 \<le> k then 10 ^ nat k else 1 / 10 ^ nat (- k))"

subsection \<open>parseFloat\<close>

text \<open>
  \<open>parseFloat\<close> skips leading white space and reads the longest prefix that is a
  StrDecimalLiteral: an optional sign, then \<open>Infinity\<close> or decimal digits with an
  optional fraction and an optional complete exponent part.  With no such prefix the
  result is NaN.
\<close>

definition exponentPart :: "jsstring \<Rightarrow> int" where
  "exponentPart r =
     (case r of
        [] \<Rightarrow> 0
      | e # r1 \<Rightarrow>
          if e = ch CHR ''e'' \<or> e = ch CHR ''E'' then
            (case r1 of
               [] \<Rightarrow> 0
             | g # r2 \<Rightarrow>
                 if g = ch CHR ''-'' then
                   (if takeWhile isDigit r2 = [] then 0
                    else - digitsVal (takeWhile isDigit r2))
                 else if g = ch CHR ''+'' then
                   (if takeWhile isDigit r2 = [] then 0
                    else digitsVal (takeWhile isDigit r2))
                 else
                   (if takeWhile isDigit r1 = [] then 0
                    else digitsVal (takeWhile isDigit r1)))
          else 0)"

definition unsignedDecimal :: "jsstring \<Rightarrow> rat option" where
  "unsignedDecimal u =
     (let ip = takeWhile isDigit u;
          r1 = dropWhile isDigit u;
          fp = (case r1 of [] \<Rightarrow> [] | d # r \<Rightarrow> if d = ch CHR ''.'' then takeWhile isDigit r else []);
          r2 = (case r1 of [] \<Rightarrow> [] | d # r \<Rightarrow> if d = ch CHR ''.'' then dropWhile isDigit r else r1)
      in if ip = [] \<and> fp = [] then None
         else Some (of_int (digitsVal (ip @ fp)) * pow10 (exponentPart r2 - int (length fp))))"

definition isPrefix :: "jsstring \<Rightarrow> jsstring \<Rightarrow> bool" where
  "isPrefix p s \<longleftrightarrow> take (length p) s = p"

definition parseFloat :: "jsstring \<Rightarrow> jsnum" where
  "parseFloat s =
     (let t = trimStart s;
          neg = (case t of [] \<Rightarrow> False | c # _ \<Rightarrow> c = ch CHR ''-'');
          u = (case t of [] \<Rightarrow> [] | c # r \<Rightarrow> if c = ch CHR ''-'' \<or> c = ch CHR ''+'' then r else t)
      in if isPrefix (js ''Infinity'') u then (if neg then NegInf else PosInf)
         else (case unsignedDecimal u of
                 None \<Rightarrow> NaN
               | Some q \<Rightarrow> Fin (if neg then - q else q)))"

subsection \<open>Number to string\<close>

text \<open>
  \<open>Number.prototype.toString\<close>: for a finite non-zero value the digits \<open>s\<close> (\<open>k\<close> of
  them, without trailing zero) and the position \<open>n\<close> of the decimal point are taken
  from the exact decimal expansion of the value, and laid out as ECMA-262 prescribes:
  plain digits up to 21 places, a leading \<open>0.\<close> down to \<open>1e-6\<close>, exponent notation
  beyond.  \<open>decPlaces b\<close> is the number of decimal places of a fraction with the
  denominator \<open>b\<close>.
\<close>

function decPlaces :: "int \<Rightarrow> nat" where
  "decPlaces b =
     (if b \<le> 1 then 0
      else if b mod 10 = 0 then Suc (decPlaces (b div 10))
      else if b mod 2 = 0 then Suc (decPlaces (b div 2))
      else if b mod 5 = 0 then Suc (decPlaces (b div 5))
      else 0)"
  by pat_completeness auto
termination
  by (relation "measure nat") auto

declare decPlaces.simps [simp del]

definition positiveToString :: "rat \<Rightarrow> jsstring" where
  "positiveToString q =
     (let a = fst (quotient_of q);
          b = snd (quotient_of q);
          j = decPlaces b;
          ds = decimalDigits (a * 10 ^ j div b);
          s = rev (dropWhile (\<lambda>c. c = ch CHR ''0'') (rev ds));
          k = length s;
          n = int (length ds) - int j
      in if int k \<le> n \<and> n \<le> 21 then s @ replicate (nat n - k) (ch CHR ''0'')
         else if 0 < n \<and> n \<le> 21 then take (nat n) s @ js ''.'' @ drop (nat n) s
         else if - 6 < n \<and> n \<le> 0 then js ''0.'' @ replicate (nat (- n)) (ch CHR ''0'') @ s
         else (if k = 1 then s else take 1 s @ js ''.'' @ drop 1 s)
              @ js ''e'' @ (if 0 \<le> n - 1 then js ''+'' else js ''-'') @ decimalDigits \<bar>n - 1\<bar>)"

fun Number_toString :: "jsnum \<Rightarrow> jsstring" where
  "Number_toString NaN = js ''NaN''"
| "Number_toString PosInf = js ''Infinity''"
| "Number_toString NegInf = js ''-Infinity''"
| "Number_toString (Fin q) =
     (if q = 0 then js ''0''
      else if q < 0 then js ''-'' @ positiveToString (- q)
      else positiveToString q)"

section \<open>JavaScript values and JSON\<close>

text \<open>
  The values that \<open>JSON.parse\<close> produces and \<open>JSON.stringify\<close> consumes.  An
  object is the list of its own properties in enumeration order.
\<close>

datatype jsval =
    JNull
  | JBool bool
  | JNum jsnum
  | JStr jsstring
  | JArr "jsval list"
  | JObj "(jsstring \<times> jsval) list"

text \<open>ToBoolean, as used by \<open>||\<close>.\<close>

fun truthy :: "jsval \<Rightarrow> bool" where
  "truthy JNull = False"
| "truthy (JBool b) = b"
| "truthy (JNum x) = (x \<noteq> NaN \<and> x \<noteq> Fin 0)"
| "truthy (JStr s) = (s \<noteq> [])"
| "truthy (JArr _) = True"
| "truthy (JObj _) = True"

subsection \<open>JSON.stringify\<close>

definition hexDigit :: "int \<Rightarrow> jschar" where
  "hexDigit d = (if d < 10 then of_int (48 + d) else of_int (87 + d))"

definition unicodeEscape :: "jschar \<Rightarrow> jsstring" where
  "unicodeEscape c =
     [0x5C, ch CHR ''u'',
      hexDigit (uint c div 4096 mod 16), hexDigit (uint c div 256 mod 16),
      hexDigit (uint c div 16 mod 16), hexDigit (uint c mod 16)]"

definition isLeadSurrogate :: "jschar \<Rightarrow> bool" where
  "isLeadSurrogate c \<longleftrightarrow> 0xD800 \<le> c \<and> c \<le> 0xDBFF"

definition isTrailSurrogate :: "jschar \<Rightarrow> bool" where
  "isTrailSurrogate c \<longleftrightarrow> 0xDC00 \<le> c \<and> c \<le> 0xDFFF"

text \<open>
  QuoteJSONString walks the code points of the string: the seven short escapes,
  \<open>\uXXXX\<close> for the other control characters and for a surrogate without its
  partner, every other code point as it is.
\<close>

fun quoteChars :: "jsstring \<Rightarrow> jsstring" where
  "quoteChars [] = []"
| "quoteChars (c # cs) =
     (if c = 0x08 then [0x5C, ch CHR ''b''] @ quoteChars cs
      else if c = 0x09 then [0x5C, ch CHR ''t''] @ quoteChars cs
      else if c = 0x0A then [0x5C, ch CHR ''n''] @ quoteChars cs
      else if c = 0x0C then [0x5C, ch CHR ''f''] @ quoteChars cs
      else if c = 0x0D then [0x5C, ch CHR ''r''] @ quoteChars cs
      else if c = 0x22 then [0x5C, 0x22] @ quoteChars cs
      else if c = 0x5C then [0x5C, 0x5C] @ quoteChars cs
      else if c < 0x20 then unicodeEscape c @ quoteChars cs
      else if isLeadSurrogate c then
        (case cs of
           [] \<Rightarrow> unicodeEscape c
         | d # ds \<Rightarrow>
             if isTrailSurrogate d then c # d # quoteChars ds
             else unicodeEscape c @ quoteChars cs)
      else if isTrailSurrogate c then unicodeEscape c @ quoteChars cs
      else c # quoteChars cs)"

definition QuoteJSONString :: "jsstring \<Rightarrow> jsstring" where
  "QuoteJSONString s = [0x22] @ quoteChars s @ [0x22]"

fun joinComma :: "jsstring list \<Rightarrow> jsstring" where
  "joinComma [] = []"
| "joinComma [x] = x"
| "joinComma (x # y # ys) = x @ js '','' @ joinComma (y # ys)"

text \<open>
  \<open>JSON.stringify\<close> with one argument: no indentation; a number that is not finite
  is written \<open>null\<close>.
\<close>

fun JSON_stringify :: "jsval \<Rightarrow> jsstring" where
  "JSON_stringify JNull = js ''null''"
| "JSON_stringify (JBool b) = (if b then js ''true'' else js ''false'')"
| "JSON_stringify (JNum x) =
     (case x of Fin q \<Rightarrow> Number_toString x | _ \<Rightarrow> js ''null'')"
| "JSON_stringify (JStr s) = QuoteJSONString s"
| "JSON_stringify (JArr vs) = js ''['' @ joinComma (map JSON_stringify vs) @ js '']''"
| "JSON_stringify (JObj ps) =
     js ''{'' @ joinComma (map (\<lambda>p. QuoteJSONString (fst p) @ js '':'' @ JSON_stringify (snd p)) ps)
     @ js ''}''"

subsection \<open>JSON.parse\<close>

text \<open>
  \<open>JSON.parse\<close> of a text that is not a JSON text throws a SyntaxError: the model
  returns \<open>None\<close>.  The text is first cut into tokens, one code unit at a time, then
  the tokens are assembled with a stack of the open arrays and objects.
\<close>

datatype token =
    TLBrace | TRBrace | TLBracket | TRBracket | TColon | TComma
  | TScalar jsval

datatype lexstate =
    LStart
  | LWord jsstring
  | LNumber jsstring
  | LString jsstring
  | LEscape jsstring
  | LUnicode jsstring nat int

text \<open>JSON white space is TAB, LF, CR and SP only.\<close>

definition isJSONWhiteSpace :: "jschar \<Rightarrow> bool" where
  "isJSONWhiteSpace c \<longleftrightarrow> c = 0x09 \<or> c = 0x0A \<or> c = 0x0D \<or> c = 0x20"

definition isLower :: "jschar \<Rightarrow> bool" where
  "isLower c \<longleftrightarrow> 0x61 \<le> c \<and> c \<le> 0x7A"

definition isNumberChar :: "jschar \<Rightarrow> bool" where
  "isNumberChar c \<longleftrightarrow>
     isDigit c \<or> c = ch CHR ''-'' \<or> c = ch CHR ''+'' \<or> c = ch CHR ''.'' \<or>
     c = ch CHR ''e'' \<or> c = ch CHR ''E''"

definition isHexDigit :: "jschar \<Rightarrow> bool" where
  "isHexDigit c \<longleftrightarrow> isDigit c \<or> (0x41 \<le> c \<and> c \<le> 0x46) \<or> (0x61 \<le> c \<and> c \<le> 0x66)"

definition hexVal :: "jschar \<Rightarrow> int" where
  "hexVal c = (if isDigit c then uint c - 48
               else if c \<le> 0x46 then uint c - 55
               else uint c - 87)"

definition wordToken :: "jsstring \<Rightarrow> token option" where
  "wordToken w =
     (if w = js ''null'' then Some (TScalar JNull)
      else if w = js ''true'' then Some (TScalar (JBool True))
      else if w = js ''false'' then Some (TScalar (JBool False))
      else None)"

text \<open>
  A JSON number: an optional minus, an integer part without a superfluous leading
  zero, an optional fraction with at least one digit, an optional exponent with at
  least one digit; nothing may follow.
\<close>

definition jsonExponent :: "jsstring \<Rightarrow> int option" where
  "jsonExponent r =
     (case r of
        [] \<Rightarrow> Some 0
      | e # r1 \<Rightarrow>
          if e = ch CHR ''e'' \<or> e = ch CHR ''E'' then
            (case r1 of
               [] \<Rightarrow> None
             | g # r2 \<Rightarrow>
                 if g = ch CHR ''-'' then
                   (if r2 \<noteq> [] \<and> list_all isDigit r2 then Some (- digitsVal r2) else None)
                 else if g = ch CHR ''+'' then
                   (if r2 \<noteq> [] \<and> list_all isDigit r2 then Some (digitsVal r2) else None)
                 else
                   (if list_all isDigit r1 then Some (digitsVal r1) else None))
          else None)"

definition jsonUnsigned :: "jsstring \<Rightarrow> rat option" where
  "jsonUnsigned u =
     (let ip = takeWhile isDigit u;
          r1 = dropWhile isDigit u;
          hasFrac = (case r1 of [] \<Rightarrow> False | d # _ \<Rightarrow> d = ch CHR ''.'');
          fp = (if hasFrac then takeWhile isDigit (tl r1) else []);
          r2 = (if hasFrac then dropWhile isDigit (tl r1) else r1)
      in if ip = [] \<or> (length ip > 1 \<and> hd ip = ch CHR ''0'') \<or> (hasFrac \<and> fp = []) then None
         else (case jsonExponent r2 of
                 None \<Rightarrow> None
               | Some ex \<Rightarrow> Some (of_int (digitsVal (ip @ fp)) * pow10 (ex - int (length fp)))))"

definition numberToken :: "jsstring \<Rightarrow> token option" where
  "numberToken w =
     (case w of
        [] \<Rightarrow> None
      | c # r \<Rightarrow>
          if c = ch CHR ''-'' then
            (case jsonUnsigned r of None \<Rightarrow> None | Some q \<Rightarrow> Some (TScalar (JNum (Fin (- q)))))
          else
            (case jsonUnsigned w of None \<Rightarrow> None | Some q \<Rightarrow> Some (TScalar (JNum (Fin q)))))"

text \<open>The step of the tokenizer between two tokens.\<close>

definition lexStart :: "jschar \<Rightarrow> token list \<Rightarrow> (lexstate \<times> token list) option" where
  "lexStart c acc =
     (if isJSONWhiteSpace c then Some (LStart, acc)
      else if c = ch CHR ''{'' then Some (LStart, TLBrace # acc)
      else if c = ch CHR ''}'' then Some (LStart, TRBrace # acc)
      else if c = ch CHR ''['' then Some (LStart, TLBracket # acc)
      else if c = ch CHR '']'' then Some (LStart, TRBracket # acc)
      else if c = ch CHR '':'' then Some (LStart, TColon # acc)
      else if c = ch CHR '','' then Some (LStart, TComma # acc)
      else if c = 0x22 then Some (LString [], acc)
      else if c = ch CHR ''-'' \<or> isDigit c then Some (LNumber [c], acc)
      else if isLower c then Some (LWord [c], acc)
      else None)"

text \<open>
  One code unit in each state.  The words and numbers are collected in reverse and
  closed by the first code unit that cannot continue them; inside a string a
  backslash starts an escape, and a raw control character is an error.
\<close>

fun lexStep :: "lexstate \<Rightarrow> token list \<Rightarrow> jschar \<Rightarrow> (lexstate \<times> token list) option" where
  "lexStep LStart acc c = lexStart c acc"
| "lexStep (LWord w) acc c =
     (if isLower c then Some (LWord (c # w), acc)
      else (case wordToken (rev w) of None \<Rightarrow> None | Some t \<Rightarrow> lexStart c (t # acc)))"
| "lexStep (LNumber w) acc c =
     (if isNumberChar c then Some (LNumber (c # w), acc)
      else (case numberToken (rev w) of None \<Rightarrow> None | Some t \<Rightarrow> lexStart c (t # acc)))"
| "lexStep (LString s) acc c =
     (if c = 0x22 then Some (LStart, TScalar (JStr (rev s)) # acc)
      else if c = 0x5C then Some (LEscape s, acc)
      else if c < 0x20 then None
      else Some (LString (c # s), acc))"
| "lexStep (LEscape s) acc c =
     (if c = 0x22 \<or> c = 0x5C \<or> c = ch CHR ''/'' then Some (LString (c # s), acc)
      else if c = ch CHR ''b'' then Some (LString (0x08 # s), acc)
      else if c = ch CHR ''f'' then Some (LString (0x0C # s), acc)
      else if c = ch CHR ''n'' then Some (LString (0x0A # s), acc)
      else if c = ch CHR ''r'' then Some (LString (0x0D # s), acc)
      else if c = ch CHR ''t'' then Some (LString (0x09 # s), acc)
      else if c = ch CHR ''u'' then Some (LUnicode s 4 0, acc)
      else None)"
| "lexStep (LUnicode s k v) acc c =
     (if isHexDigit c then
        (if k \<le> 1 then Some (LString (of_int (16 * v + hexVal c) # s), acc)
         else Some (LUnicode s (k - 1) (16 * v + hexVal c), acc))
      else None)"

fun lexEnd :: "lexstate \<Rightarrow> token list \<Rightarrow> token list option" where
  "lexEnd LStart acc = Some (rev acc)"
| "lexEnd (LWord w) acc =
     (case wordToken (rev w) of None \<Rightarrow> None | Some t \<Rightarrow> Some (rev (t # acc)))"
| "lexEnd (LNumber w) acc =
     (case numberToken (rev w) of None \<Rightarrow> None | Some t \<Rightarrow> Some (rev (t # acc)))"
| "lexEnd _ acc = None"

fun lex :: "lexstate \<Rightarrow> token list \<Rightarrow> jsstring \<Rightarrow> token list option" where
  "lex st acc [] = lexEnd st acc"
| "lex st acc (c # cs) =
     (case lexStep st acc c of
        None \<Rightarrow> None
      | Some (st', acc') \<Rightarrow> lex st' acc' cs)"

text \<open>
  Creating a property.  An object enumerates its array-index keys (canonical decimal
  numerals below \<open>2^32 - 1\<close>) first, in ascending order, then its other keys in the
  order of their creation; a key that is already there keeps its place and takes the
  new value.
\<close>

definition isArrayIndex :: "jsstring \<Rightarrow> bool" where
  "isArrayIndex k \<longleftrightarrow>
     k \<noteq> [] \<and> list_all isDigit k \<and> (length k = 1 \<or> hd k \<noteq> ch CHR ''0'') \<and>
     length k \<le> 10 \<and> digitsVal k < 4294967295"

fun insertIndex :: "jsstring \<Rightarrow> jsval \<Rightarrow> (jsstring \<times> jsval) list \<Rightarrow> (jsstring \<times> jsval) list" where
  "insertIndex k v [] = [(k, v)]"
| "insertIndex k v (p # ps) =
     (if isArrayIndex (fst p) \<and> digitsVal (fst p) < digitsVal k then p # insertIndex k v ps
      else (k, v) # p # ps)"

definition CreateDataProperty :: "(jsstring \<times> jsval) list \<Rightarrow> jsstring \<Rightarrow> jsval \<Rightarrow> (jsstring \<times> jsval) list" where
  "CreateDataProperty ps k v =
     (if k \<in> set (map fst ps) then map (\<lambda>p. if fst p = k then (k, v) else p) ps
      else if isArrayIndex k then insertIndex k v ps
      else ps @ [(k, v)])"

text \<open>
  The open containers: an array with its elements so far (in reverse), an object with
  its properties so far and the key whose value is being read.
\<close>

datatype frame =
    FArray "jsval list"
  | FObject "(jsstring \<times> jsval) list" jsstring

datatype pstate =
    PValue
  | PArrayStart
  | PObjectStart
  | PKey
  | PColon
  | PAfter
  | PDone jsval

fun putValue :: "jsval \<Rightarrow> frame list \<Rightarrow> pstate \<times> frame list" where
  "putValue v [] = (PDone v, [])"
| "putValue v (FArray vs # stk) = (PAfter, FArray (v # vs) # stk)"
| "putValue v (FObject ps k # stk) = (PAfter, FObject (CreateDataProperty ps k v) k # stk)"

fun beginValue :: "token \<Rightarrow> frame list \<Rightarrow> (pstate \<times> frame list) option" where
  "beginValue (TScalar v) stk = Some (putValue v stk)"
| "beginValue TLBracket stk = Some (PArrayStart, FArray [] # stk)"
| "beginValue TLBrace stk = Some (PObjectStart, FObject [] [] # stk)"
| "beginValue _ stk = None"

fun parseStep :: "pstate \<Rightarrow> frame list \<Rightarrow> token \<Rightarrow> (pstate \<times> frame list) option" where
  "parseStep PValue stk t = beginValue t stk"
| "parseStep PArrayStart (FArray vs # stk) TRBracket = Some (putValue (JArr (rev vs)) stk)"
| "parseStep PArrayStart stk t = beginValue t stk"
| "parseStep PObjectStart (FObject ps k # stk) TRBrace = Some (putValue (JObj ps) stk)"
| "parseStep PObjectStart (FObject ps k # stk) (TScalar (JStr k')) = Some (PColon, FObject ps k' # stk)"
| "parseStep PKey (FObject ps k # stk) (TScalar (JStr k')) = Some (PColon, FObject ps k' # stk)"
| "parseStep PColon stk TColon = Some (PValue, stk)"
| "parseStep PAfter (FArray vs # stk) TComma = Some (PValue, FArray vs # stk)"
| "parseStep PAfter (FArray vs # stk) TRBracket = Some (putValue (JArr (rev vs)) stk)"
| "parseStep PAfter (FObject ps k # stk) TComma = Some (PKey, FObject ps k # stk)"
| "parseStep PAfter (FObject ps k # stk) TRBrace = Some (putValue (JObj ps) stk)"
| "parseStep _ _ _ = None"

fun parseTokens :: "pstate \<Rightarrow> frame list \<Rightarrow> token list \<Rightarrow> jsval option" where
  "parseTokens st stk [] = (case st of PDone v \<Rightarrow> Some v | _ \<Rightarrow> None)"
| "parseTokens st stk (t # ts) =
     (case parseStep st stk t of
        None \<Rightarrow> None
      | Some (st', stk') \<Rightarrow> parseTokens st' stk' ts)"

definition JSON_parse :: "jsstring \<Rightarrow> jsval option" where
  "JSON_parse s =
     (case lex LStart [] s of
        None \<Rightarrow> None
      | Some ts \<Rightarrow> parseTokens PValue [] ts)"

section \<open>The expense tracker\<close>

text \<open>
  A transaction is the object literal \<open>{id, text, amount, category}\<close> that
  \<open>addTransaction\<close> builds; \<open>id\<close> is a reading of \<open>Date.now()\<close>, an integer
  number of milliseconds.
\<close>

record transaction =
  tx_id :: int
  tx_text :: jsstring
  tx_amount :: jsnum
  tx_category :: jsstring

definition transactionValue :: "transaction \<Rightarrow> jsval" where
  "transactionValue t =
     JObj [(js ''id'', JNum (Fin (of_int (tx_id t)))),
           (js ''text'', JStr (tx_text t)),
           (js ''amount'', JNum (tx_amount t)),
           (js ''category'', JStr (tx_category t))]"

text \<open>
  The state of an \<open>ExpenseTracker\<close>: what the handlers read from the form
  (\<open>this.text.value\<close>, \<open>this.amount.value\<close>, the radio inputs as pairs of
  \<open>checked\<close> and \<open>value\<close>, the value of the category select, \<open>None\<close> when the
  page has no such element), the two collections, and \<open>localStorage\<close>.  The
  categories are an array, over which the constructor has iterated to fill the select.
  The list element and the three summary elements only display what is computed here
  and are left out.
\<close>

record tracker =
  text_value :: jsstring
  amount_value :: jsstring
  transactionTypeInputs :: "(bool \<times> jsstring) list"
  categorySelect :: "jsstring option"
  transactions :: "transaction list"
  categories :: "jsval list"
  localStorage :: "jsstring \<rightharpoonup> jsstring"

datatype exception = SyntaxError

text \<open>The two \<open>alert\<close> messages of \<open>addTransaction\<close>.\<close>

datatype alert =
    EmptyInput       \<comment> \<open>\<open>'Please enter text and amount'\<close>\<close>
  | InvalidNumber    \<comment> \<open>\<open>'Please enter a valid number'\<close>\<close>

subsection \<open>Loading\<close>

text \<open>
  \<open>JSON.parse(localStorage.getItem(key)) || []\<close>: \<open>getItem\<close> gives \<open>null\<close> for a
  key that is not stored, and \<open>JSON.parse\<close> converts its argument to a string first.
\<close>

definition restore :: "(jsstring \<rightharpoonup> jsstring) \<Rightarrow> jsstring \<Rightarrow> exception + jsval" where
  "restore st key =
     (case JSON_parse (case st key of None \<Rightarrow> js ''null'' | Some s \<Rightarrow> s) of
        None \<Rightarrow> Inl SyntaxError
      | Some v \<Rightarrow> Inr (if truthy v then v else JArr []))"

definition load :: "(jsstring \<rightharpoonup> jsstring) \<Rightarrow> exception + (jsval \<times> jsval)" where
  "load st =
     (case restore st (js ''transactions'') of
        Inl e \<Rightarrow> Inl e
      | Inr ts \<Rightarrow>
          (case restore st (js ''categories'') of
             Inl e \<Rightarrow> Inl e
           | Inr cs \<Rightarrow> Inr (ts, cs)))"

subsection \<open>The handlers\<close>

fun getSelectedTransactionType :: "(bool \<times> jsstring) list \<Rightarrow> jsstring" where
  "getSelectedTransactionType [] = js ''expense''"
| "getSelectedTransactionType (input # inputs) =
     (if fst input then snd input else getSelectedTransactionType inputs)"

definition updateLocalStorage :: "tracker \<Rightarrow> tracker" where
  "updateLocalStorage s =
     s\<lparr>localStorage := (localStorage s)
          (js ''transactions'' \<mapsto> JSON_stringify (JArr (map transactionValue (transactions s))))\<rparr>"

text \<open>
  \<open>addTransaction\<close>, with the reading of \<open>Date.now()\<close> as an argument.  The result
  is the alert shown or the transaction built, and the state the handler leaves.
\<close>

definition addTransaction :: "int \<Rightarrow> tracker \<Rightarrow> (alert + transaction) \<times> tracker" where
  "addTransaction now s =
     (let text = trim (text_value s);
          amountValue = trim (amount_value s)
      in if text = [] \<or> amountValue = [] then (Inl EmptyInput, s)
         else
           let amount = Math_abs (parseFloat amountValue)
           in if isNaN amount then (Inl InvalidNumber, s)
              else
                let type = getSelectedTransactionType (transactionTypeInputs s);
                    amount = (if type = js ''expense'' then js_neg amount else amount);
                    category = (case categorySelect s of
                                  None \<Rightarrow> []
                                | Some v \<Rightarrow> if v \<noteq> [] then v else []);
                    transaction = \<lparr>tx_id = now, tx_text = text, tx_amount = amount,
                                   tx_category = (if category \<noteq> [] then category
                                                  else js ''Uncategorized'')\<rparr>;
                    s1 = updateLocalStorage (s\<lparr>transactions := transactions s @ [transaction]\<rparr>)
                in (Inr transaction, s1\<lparr>text_value := [], amount_value := []\<rparr>))"

text \<open>
  \<open>populateCategoryDropdown\<close> does nothing without a select; otherwise it empties the
  select and fills it again, first with the option whose value is the empty string,
  which is then the selected one.  \<open>init\<close> calls it and redraws the list and the
  summaries.
\<close>

definition populateCategoryDropdown :: "tracker \<Rightarrow> tracker" where
  "populateCategoryDropdown s =
     (case categorySelect s of
        None \<Rightarrow> s
      | Some _ \<Rightarrow> s\<lparr>categorySelect := Some []\<rparr>)"

definition init :: "tracker \<Rightarrow> tracker" where
  "init s = populateCategoryDropdown s"

definition removeTransaction :: "int \<Rightarrow> tracker \<Rightarrow> tracker" where
  "removeTransaction i s =
     init (updateLocalStorage
       (s\<lparr>transactions := filter (\<lambda>t. tx_id t \<noteq> i) (transactions s)\<rparr>))"



text \<open>
  A page that was opened over an empty store, and the user filling the form: a label,
  an amount, one of the two radio buttons, and a choice in the category select.
\<close>

definition emptyTracker :: tracker where
  "emptyTracker =
     \<lparr>text_value = [], amount_value = [],
      transactionTypeInputs = [(False, js ''income''), (False, js ''expense'')],
      categorySelect = Some [], transactions = [], categories = [],
      localStorage = Map.empty\<rparr>"

definition userInput :: "jsstring \<Rightarrow> jsstring \<Rightarrow> jsstring \<Rightarrow> jsstring option \<Rightarrow> tracker \<Rightarrow> tracker" where
  "userInput label rawAmount kind category s =
     s\<lparr>text_value := label, amount_value := rawAmount,
       transactionTypeInputs := [(kind = js ''income'', js ''income''),
                                 (kind = js ''expense'', js ''expense'')],
       categorySelect := category\<rparr>"

subsection \<open>The words of the specification\<close>

text \<open>
  An amount text is parseable as a number when, after leading white space and an
  optional sign, it begins with \<open>Infinity\<close>, with a digit, or with a point followed by
  a digit.
\<close>

definition startsDecimal :: "jsstring \<Rightarrow> bool" where
  "startsDecimal u \<longleftrightarrow>
     (case u of
        [] \<Rightarrow> False
      | c # r \<Rightarrow> isDigit c \<or> (c = ch CHR ''.'' \<and> (case r of [] \<Rightarrow> False | d # _ \<Rightarrow> isDigit d)))"

definition parseableNumber :: "jsstring \<Rightarrow> bool" where
  "parseableNumber s \<longleftrightarrow>
     (let t = trimStart s;
          u = (case t of [] \<Rightarrow> [] | c # r \<Rightarrow> if c = ch CHR ''-'' \<or> c = ch CHR ''+'' then r else t)
      in isPrefix (js ''Infinity'') u \<or> startsDecimal u)"


subsection \<open>Reachable states\<close>

text \<open>
  The states of a page opened over a store without transactions: the user fills the
  form, submits it (at some reading of the clock) and deletes entries.
  \<open>reachableFresh\<close> admits a submission only at a clock reading that no transaction
  carries as its identifier.
\<close>

inductive reachable :: "tracker \<Rightarrow> bool" where
  opened: "transactions s = [] \<Longrightarrow> reachable s"
| filled: "reachable s \<Longrightarrow>
     reachable (s\<lparr>text_value := label, amount_value := rawAmount,
                  transactionTypeInputs := inputs, categorySelect := category\<rparr>)"
| added: "reachable s \<Longrightarrow> reachable (snd (addTransaction now s))"
| removed: "reachable s \<Longrightarrow> reachable (removeTransaction i s)"

inductive reachableFresh :: "tracker \<Rightarrow> bool" where
  openedFresh: "transactions s = [] \<Longrightarrow> reachableFresh s"
| filledFresh: "reachableFresh s \<Longrightarrow>
     reachableFresh (s\<lparr>text_value := label, amount_value := rawAmount,
                       transactionTypeInputs := inputs, categorySelect := category\<rparr>)"
| addedFresh: "reachableFresh s \<Longrightarrow> now \<notin> tx_id ` set (transactions s) \<Longrightarrow>
     reachableFresh (snd (addTransaction now s))"
| removedFresh: "reachableFresh s \<Longrightarrow> reachableFresh (removeTransaction i s)"

subsection \<open>Example states\<close>

text \<open>
  One coffee; the same form submitted again within the same millisecond; a tea one
  millisecond later; a form without a category select.
\<close>

definition oneCoffee :: tracker where
  "oneCoffee =
     snd (addTransaction 1000
       (userInput (js ''Coffee'') (js ''3.50'') (js ''expense'') None emptyTracker))"

definition twoCoffees :: tracker where
  "twoCoffees =
     snd (addTransaction 1000
       (userInput (js ''Coffee'') (js ''3.50'') (js ''expense'') None oneCoffee))"

definition coffeeThenTea :: tracker where
  "coffeeThenTea =
     snd (addTransaction 1001 (userInput (js ''Tea'') (js ''2'') (js ''expense'') None oneCoffee))"

definition misc :: tracker where
  "misc = userInput (js ''Misc'') (js ''5'') (js ''expense'') None emptyTracker"


definition blankLabel :: tracker where
  "blankLabel = userInput [] (js ''5'') (js ''expense'') None emptyTracker"

definition gift :: tracker where
  "gift = userInput (js ''Gift'') (js ''abc'') (js ''income'') None emptyTracker"

text \<open>
  A loan entered with the amount \<open>Infinity\<close>; a store whose transactions entry is
  not a JSON text.
\<close>

definition loan :: tracker where
  "loan = snd (addTransaction 1
            (userInput (js ''Loan'') (js ''Infinity'') (js ''income'') None emptyTracker))"

definition brokenStore :: "jsstring \<rightharpoonup> jsstring" where
  "brokenStore = [js ''transactions'' \<mapsto> js ''{'']"

section \<open>Adding a transaction\<close>

text \<open>The three ways through \<open>addTransaction\<close>.\<close>

lemma addTransaction_cases:
  obtains (empty) "trim (text_value s) = [] \<or> trim (amount_value s) = []"
      "addTransaction now s = (Inl EmptyInput, s)"
  | (invalid) "trim (text_value s) \<noteq> []" "trim (amount_value s) \<noteq> []"
      "parseFloat (trim (amount_value s)) = NaN"
      "addTransaction now s = (Inl InvalidNumber, s)"
  | (success) t where "trim (text_value s) \<noteq> []" "trim (amount_value s) \<noteq> []"
      "parseFloat (trim (amount_value s)) \<noteq> NaN"
      "t = \<lparr>tx_id = now, tx_text = trim (text_value s),
            tx_amount = (if getSelectedTransactionType (transactionTypeInputs s) = js ''expense''
                         then js_neg (Math_abs (parseFloat (trim (amount_value s))))
                         else Math_abs (parseFloat (trim (amount_value s)))),
            tx_category = (case categorySelect s of
                             None \<Rightarrow> js ''Uncategorized''
                           | Some v \<Rightarrow> if v \<noteq> [] then v else js ''Uncategorized'')\<rparr>"
      "addTransaction now s =
         (Inr t, (updateLocalStorage (s\<lparr>transactions := transactions s @ [t]\<rparr>))
                   \<lparr>text_value := [], amount_value := []\<rparr>)"
proof -
  have abs_nan: "isNaN (Math_abs x) \<longleftrightarrow> x = NaN" for x
    by (cases x) (simp_all add: isNaN_def)
  show thesis
  proof (cases "trim (text_value s) = [] \<or> trim (amount_value s) = []")
    case True
    then have "addTransaction now s = (Inl EmptyInput, s)"
      by (simp add: addTransaction_def)
    with True show ?thesis by (rule empty)
  next
    case False
    show ?thesis
    proof (cases "parseFloat (trim (amount_value s)) = NaN")
      case True
      with False have "addTransaction now s = (Inl InvalidNumber, s)"
        by (simp add: addTransaction_def isNaN_def)
      with False True show ?thesis by (intro invalid) simp_all
    next
      case nn: False
      show ?thesis
        apply (rule success)
        using False nn
        by (simp_all add: addTransaction_def abs_nan Let_def split: option.split)
    qed
  qed
qed

lemma Uncategorized_not_empty: "js ''Uncategorized'' \<noteq> []"
  by (simp add: js_def)

lemma addTransaction_Inr:
  assumes "addTransaction now s = (Inr t, s')"
  shows "t = \<lparr>tx_id = now, tx_text = trim (text_value s),
            tx_amount = (if getSelectedTransactionType (transactionTypeInputs s) = js ''expense''
                         then js_neg (Math_abs (parseFloat (trim (amount_value s))))
                         else Math_abs (parseFloat (trim (amount_value s)))),
            tx_category = (case categorySelect s of
                             None \<Rightarrow> js ''Uncategorized''
                           | Some v \<Rightarrow> if v \<noteq> [] then v else js ''Uncategorized'')\<rparr> \<and>
         s' = (updateLocalStorage (s\<lparr>transactions := transactions s @ [t]\<rparr>))
                \<lparr>text_value := [], amount_value := []\<rparr>"
  using assms by - (rule addTransaction_cases [of s now], auto)

lemma addTransaction_appends:
  "transactions (snd (addTransaction now s)) = transactions s \<or>
   (\<exists>t. transactions (snd (addTransaction now s)) = transactions s @ [t] \<and>
        tx_id t = now \<and> tx_category t \<noteq> [])"
  by (rule addTransaction_cases [of s now])
     (auto simp add: updateLocalStorage_def Uncategorized_not_empty split: option.split)

lemma reachable_userInput:
  "reachable s \<Longrightarrow> reachable (userInput label rawAmount kind category s)"
  unfolding userInput_def by (rule reachable.filled)

lemma reachableFresh_userInput:
  "reachableFresh s \<Longrightarrow> reachableFresh (userInput label rawAmount kind category s)"
  unfolding userInput_def by (rule reachableFresh.filledFresh)

lemma transactions_userInput:
  "transactions (userInput label rawAmount kind category s) = transactions s"
  by (simp add: userInput_def)

lemma oneCoffee_transactions:
  "transactions oneCoffee =
     [\<lparr>tx_id = 1000, tx_text = js ''Coffee'', tx_amount = Fin (- (7 / 2)),
       tx_category = js ''Uncategorized''\<rparr>]"
  unfolding oneCoffee_def by code_simp

lemma coffeeThenTea_transactions:
  "transactions coffeeThenTea =
     [\<lparr>tx_id = 1000, tx_text = js ''Coffee'', tx_amount = Fin (- (7 / 2)),
       tx_category = js ''Uncategorized''\<rparr>,
      \<lparr>tx_id = 1001, tx_text = js ''Tea'', tx_amount = Fin (- 2),
       tx_category = js ''Uncategorized''\<rparr>]"
  unfolding coffeeThenTea_def oneCoffee_def by code_simp

lemma addTransaction_misc:
  "fst (addTransaction 7 misc) =
     Inr \<lparr>tx_id = 7, tx_text = js ''Misc'', tx_amount = Fin (- 5),
          tx_category = js ''Uncategorized''\<rparr>"
  unfolding misc_def by code_simp

text \<open>
  C3.  \<open>addTransaction\<close> either alerts and returns before it has touched anything
  (the tracker, with its transactions, categories and stored snapshot, is as before),
  or it builds the transaction, appends it and writes the snapshot of the new
  sequence; the categories are the same in both cases.
\<close>

theorem addTransaction_all_or_nothing:
  "(case addTransaction now s of
      (Inl e, s') \<Rightarrow> s' = s
    | (Inr t, s') \<Rightarrow>
        transactions s' = transactions s @ [t] \<and>
        categories s' = categories s \<and>
        localStorage s' = (localStorage s)
          (js ''transactions'' \<mapsto>
             JSON_stringify (JArr (map transactionValue (transactions s @ [t])))))"
  by (rule addTransaction_cases [of s now]) (simp_all add: updateLocalStorage_def)


theorem addTransaction_all_or_nothing_witness:
  "trim (text_value misc) \<noteq> [] \<and>
   (\<exists>t s'. addTransaction 7 misc = (Inr t, s') \<and> transactions s' = transactions misc @ [t] \<and>
            categories s' = categories misc)"
proof -
  obtain t s' where add: "addTransaction 7 misc = (Inr t, s')"
    using addTransaction_misc by (metis prod.collapse)
  with addTransaction_all_or_nothing [where now = 7 and s = misc]
  have "transactions s' = transactions misc @ [t] \<and> categories s' = categories misc"
    by simp
  moreover have "trim (text_value misc) \<noteq> []"
    unfolding misc_def by code_simp
  ultimately show ?thesis
    using add by blast
qed

lemma takeWhile_Nil_iff: "takeWhile P xs = [] \<longleftrightarrow> (case xs of [] \<Rightarrow> True | x # _ \<Rightarrow> \<not> P x)"
  by (cases xs) simp_all

lemma dot_not_digit: "\<not> isDigit (ch CHR ''.'')"
  by (simp add: isDigit_def ch_def)

lemma unsignedDecimal_None_iff: "unsignedDecimal u = None \<longleftrightarrow> \<not> startsDecimal u"
proof (cases u)
  case Nil
  then show ?thesis
    by (simp add: unsignedDecimal_def startsDecimal_def)
next
  case (Cons c r)
  show ?thesis
  proof (cases "isDigit c")
    case True
    with Cons show ?thesis
      by (simp add: unsignedDecimal_def startsDecimal_def Let_def)
  next
    case False
    with Cons show ?thesis
      by (auto simp add: unsignedDecimal_def startsDecimal_def Let_def takeWhile_Nil_iff
          split: list.splits)
  qed
qed

lemma parseFloat_NaN_iff: "parseFloat s = NaN \<longleftrightarrow> \<not> parseableNumber s"
proof -
  define u where "u = (case trimStart s of [] \<Rightarrow> []
     | c # r \<Rightarrow> if c = ch CHR ''-'' \<or> c = ch CHR ''+'' then r else trimStart s)"
  have "parseFloat s = NaN \<longleftrightarrow> \<not> isPrefix (js ''Infinity'') u \<and> unsignedDecimal u = None"
    unfolding parseFloat_def u_def Let_def by (simp split: option.split)
  moreover have "parseableNumber s \<longleftrightarrow> isPrefix (js ''Infinity'') u \<or> startsDecimal u"
    unfolding parseableNumber_def u_def Let_def by simp
  ultimately show ?thesis
    by (simp add: unsignedDecimal_None_iff)
qed

lemma parseFloat_Nil: "parseFloat [] = NaN"
  by code_simp

text \<open>
  C2.  \<open>addTransaction\<close> alerts \<open>EmptyInput\<close> exactly when the label or the amount
  is empty after trimming.  When neither is, it alerts \<open>InvalidNumber\<close> exactly when
  the trimmed amount is not parseable as a number, and otherwise it builds the
  transaction (with the clock reading as identifier and the trimmed label) and appends
  it.
\<close>

theorem addTransaction_validation:
  "(fst (addTransaction now s) = Inl EmptyInput \<longleftrightarrow>
      trim (text_value s) = [] \<or> trim (amount_value s) = []) \<and>
   (trim (text_value s) \<noteq> [] \<and> trim (amount_value s) \<noteq> [] \<longrightarrow>
      (fst (addTransaction now s) = Inl InvalidNumber \<longleftrightarrow>
         \<not> parseableNumber (trim (amount_value s)))) \<and>
   (trim (text_value s) \<noteq> [] \<and> trim (amount_value s) \<noteq> [] \<and>
    parseableNumber (trim (amount_value s)) \<longrightarrow>
      (\<exists>t. fst (addTransaction now s) = Inr t \<and>
           tx_id t = now \<and> tx_text t = trim (text_value s) \<and>
           transactions (snd (addTransaction now s)) = transactions s @ [t]))"
  by (rule addTransaction_cases [of s now])
     (auto simp add: parseFloat_NaN_iff updateLocalStorage_def)


theorem addTransaction_validation_witness:
  "trim (text_value blankLabel) = [] \<and>
   fst (addTransaction 0 blankLabel) = Inl EmptyInput \<and>
   trim (text_value gift) \<noteq> [] \<and> trim (amount_value gift) \<noteq> [] \<and>
   \<not> parseableNumber (trim (amount_value gift)) \<and>
   fst (addTransaction 0 gift) = Inl InvalidNumber \<and>
   trim (text_value misc) \<noteq> [] \<and> trim (amount_value misc) \<noteq> [] \<and>
   parseableNumber (trim (amount_value misc)) \<and>
   (\<exists>t. fst (addTransaction 7 misc) = Inr t \<and> tx_id t = 7 \<and>
        transactions (snd (addTransaction 7 misc)) = transactions misc @ [t])"
proof -
  have b: "trim (text_value blankLabel) = []"
    unfolding blankLabel_def by code_simp
  have g: "trim (text_value gift) \<noteq> []" "trim (amount_value gift) \<noteq> []"
    "\<not> parseableNumber (trim (amount_value gift))"
    unfolding gift_def by code_simp+
  have m: "trim (text_value misc) \<noteq> []" "trim (amount_value misc) \<noteq> []"
    "parseableNumber (trim (amount_value misc))"
    unfolding misc_def by code_simp+
  from b addTransaction_validation [of 0 blankLabel]
  have "fst (addTransaction 0 blankLabel) = Inl EmptyInput"
    by blast
  moreover from g addTransaction_validation [of 0 gift]
  have "fst (addTransaction 0 gift) = Inl InvalidNumber"
    by blast
  moreover from m addTransaction_validation [of 7 misc]
  have "\<exists>t. fst (addTransaction 7 misc) = Inr t \<and> tx_id t = 7 \<and>
        transactions (snd (addTransaction 7 misc)) = transactions misc @ [t]"
    by blast
  ultimately show ?thesis
    using b g m by blast
qed

lemma trim_Coffee: "trim (js ''Coffee'') = js ''Coffee''"
  by code_simp

lemma trim_Paycheck: "trim (js ''Paycheck'') = js ''Paycheck''"
  by code_simp

lemma parseFloat_3_50: "parseFloat (trim (js ''3.50'')) = Fin (7 / 2)"
  by code_simp

lemma parseFloat_1000: "parseFloat (trim (js ''1000'')) = Fin 1000"
  by code_simp

lemma kind_userInput:
  "kind = js ''income'' \<or> kind = js ''expense'' \<Longrightarrow>
   getSelectedTransactionType (transactionTypeInputs (userInput label rawAmount kind category s))
     = kind"
  by (auto simp add: userInput_def)

lemma addTransaction_succeeds:
  assumes "trim (text_value s) \<noteq> []" and "parseFloat (trim (amount_value s)) \<noteq> NaN"
  shows "\<exists>t s'. addTransaction now s = (Inr t, s') \<and>
           tx_amount t =
             (if getSelectedTransactionType (transactionTypeInputs s) = js ''expense''
              then js_neg (Math_abs (parseFloat (trim (amount_value s))))
              else Math_abs (parseFloat (trim (amount_value s))))"
  using assms by - (rule addTransaction_cases [of s now], auto simp add: parseFloat_Nil)

text \<open>
  C5.  When the label is not blank and \<open>parseFloat\<close> reads a number from the amount,
  the transaction is built and its amount is the absolute value of that number,
  negated exactly when the selected type is \<open>expense\<close>.  Coffee for \<open>3.50\<close> as an
  expense is stored as \<open>-3.5\<close>, a paycheck of \<open>1000\<close> as income is stored as
  \<open>1000\<close>, whatever the time, the category and the state before.
\<close>

theorem addTransaction_sign_policy:
  "(trim (text_value s) \<noteq> [] \<and> parseFloat (trim (amount_value s)) \<noteq> NaN \<longrightarrow>
      (\<exists>t s'. addTransaction now s = (Inr t, s') \<and>
         tx_amount t =
           (if getSelectedTransactionType (transactionTypeInputs s) = js ''expense''
            then js_neg (Math_abs (parseFloat (trim (amount_value s))))
            else Math_abs (parseFloat (trim (amount_value s)))))) \<and>
   (\<exists>t s'. addTransaction now
              (userInput (js ''Coffee'') (js ''3.50'') (js ''expense'') category s) = (Inr t, s') \<and>
      tx_amount t = Fin (- (7 / 2))) \<and>
   (\<exists>t s'. addTransaction now
              (userInput (js ''Paycheck'') (js ''1000'') (js ''income'') category s) = (Inr t, s') \<and>
      tx_amount t = Fin 1000)"
proof (intro conjI impI)
  assume "trim (text_value s) \<noteq> [] \<and> parseFloat (trim (amount_value s)) \<noteq> NaN"
  then have "trim (text_value s) \<noteq> []" "parseFloat (trim (amount_value s)) \<noteq> NaN"
    by simp_all
  then show "\<exists>t s'. addTransaction now s = (Inr t, s') \<and>
         tx_amount t =
           (if getSelectedTransactionType (transactionTypeInputs s) = js ''expense''
            then js_neg (Math_abs (parseFloat (trim (amount_value s))))
            else Math_abs (parseFloat (trim (amount_value s))))"
    by (rule addTransaction_succeeds)
next
  let ?s = "userInput (js ''Coffee'') (js ''3.50'') (js ''expense'') category s"
  have "trim (text_value ?s) \<noteq> []" "parseFloat (trim (amount_value ?s)) \<noteq> NaN"
    by (simp_all add: userInput_def trim_Coffee parseFloat_3_50) (simp add: js_def)
  from addTransaction_succeeds [OF this, of now]
  show "\<exists>t s'. addTransaction now ?s = (Inr t, s') \<and> tx_amount t = Fin (- (7 / 2))"
    by (simp add: kind_userInput) (simp add: userInput_def parseFloat_3_50)
next
  let ?s = "userInput (js ''Paycheck'') (js ''1000'') (js ''income'') category s"
  have ie: "js ''income'' \<noteq> js ''expense''"
    by (simp add: js_def ch_def)
  have "trim (text_value ?s) \<noteq> []" "parseFloat (trim (amount_value ?s)) \<noteq> NaN"
    by (simp_all add: userInput_def trim_Paycheck parseFloat_1000) (simp add: js_def)
  from addTransaction_succeeds [OF this, of now]
  show "\<exists>t s'. addTransaction now ?s = (Inr t, s') \<and> tx_amount t = Fin 1000"
    by (simp add: kind_userInput ie) (simp add: userInput_def parseFloat_1000)
qed


theorem addTransaction_sign_policy_witness:
  "trim (text_value misc) \<noteq> [] \<and> parseFloat (trim (amount_value misc)) \<noteq> NaN \<and>
   getSelectedTransactionType (transactionTypeInputs misc) = js ''expense'' \<and>
   (\<exists>t s'. addTransaction 7 misc = (Inr t, s') \<and> tx_amount t = Fin (- 5))"
proof -
  have m: "trim (text_value misc) \<noteq> []" "parseFloat (trim (amount_value misc)) = Fin 5"
    "getSelectedTransactionType (transactionTypeInputs misc) = js ''expense''"
    unfolding misc_def by code_simp+
  with addTransaction_sign_policy [of misc 7]
  have "\<exists>t s'. addTransaction 7 misc = (Inr t, s') \<and> tx_amount t = Fin (- 5)"
    by simp
  with m show ?thesis
    by simp
qed

section \<open>Removal\<close>

lemma transactions_updateLocalStorage:
  "transactions (updateLocalStorage s) = transactions s"
  by (simp add: updateLocalStorage_def)

lemma transactions_removeTransaction:
  "transactions (removeTransaction i s) = filter (\<lambda>t. tx_id t \<noteq> i) (transactions s)"
  by (simp add: removeTransaction_def init_def populateCategoryDropdown_def
        updateLocalStorage_def split: option.split)

lemma removeTransaction_absent:
  assumes "i \<notin> tx_id ` set (transactions s)"
  shows "filter (\<lambda>t. tx_id t \<noteq> i) (transactions s) = transactions s"
proof -
  have "\<forall>t\<in>set (transactions s). tx_id t \<noteq> i"
    using assms by auto
  then show ?thesis
    by (simp add: filter_id_conv)
qed

lemma twoCoffees_transactions:
  "transactions twoCoffees =
     [\<lparr>tx_id = 1000, tx_text = js ''Coffee'', tx_amount = Fin (- (7 / 2)),
       tx_category = js ''Uncategorized''\<rparr>,
      \<lparr>tx_id = 1000, tx_text = js ''Coffee'', tx_amount = Fin (- (7 / 2)),
       tx_category = js ''Uncategorized''\<rparr>]"
  unfolding twoCoffees_def oneCoffee_def by code_simp

text \<open>
  C7.  Calling \<open>removeTransaction\<close> a second time with the same identifier changes
  nothing: the tracker (its transaction sequence and the stored snapshot) is the one
  left by the first call.  For an identifier that no transaction carries the sequence
  stays as it is; \<open>removeTransaction\<close> has no failing branch.
\<close>

theorem removeTransaction_idempotent:
  "removeTransaction i (removeTransaction i s) = removeTransaction i s \<and>
   (i \<notin> tx_id ` set (transactions s) \<longrightarrow>
      transactions (removeTransaction i s) = transactions s)"
proof
  show "removeTransaction i (removeTransaction i s) = removeTransaction i s"
    by (simp add: removeTransaction_def init_def populateCategoryDropdown_def
        updateLocalStorage_def split: option.split)
  show "i \<notin> tx_id ` set (transactions s) \<longrightarrow>
      transactions (removeTransaction i s) = transactions s"
    by (simp add: transactions_removeTransaction removeTransaction_absent)
qed

theorem removeTransaction_idempotent_witness:
  "2000 \<notin> tx_id ` set (transactions twoCoffees) \<and>
   removeTransaction 2000 (removeTransaction 2000 twoCoffees) = removeTransaction 2000 twoCoffees \<and>
   transactions (removeTransaction 2000 twoCoffees) = transactions twoCoffees"
  using removeTransaction_idempotent [of 2000 twoCoffees]
  by (simp add: twoCoffees_transactions)

text \<open>
  C10.  \<open>removeTransaction\<close> keeps exactly the transactions with another identifier,
  in their order: none with the given identifier is left, however many there were.
  Two transactions added within the same millisecond share their identifier, and one
  call removes both.
\<close>

theorem removeTransaction_removes_all:
  "transactions (removeTransaction i s) = filter (\<lambda>t. tx_id t \<noteq> i) (transactions s) \<and>
   (\<forall>t\<in>set (transactions (removeTransaction i s)). tx_id t \<noteq> i) \<and>
   length (transactions (removeTransaction i s)) =
     length (transactions s) - length (filter (\<lambda>t. tx_id t = i) (transactions s))"
proof -
  have "length (filter (\<lambda>t. tx_id t \<noteq> i) xs) = length xs - length (filter (\<lambda>t. tx_id t = i) xs)"
    for xs :: "transaction list"
    using sum_length_filter_compl [of "\<lambda>t. tx_id t = i" xs] by simp
  then show ?thesis
    by (simp add: transactions_removeTransaction)
qed

theorem removeTransaction_removes_all_witness:
  "length (filter (\<lambda>t. tx_id t = 1000) (transactions twoCoffees)) = 2 \<and>
   transactions (removeTransaction 1000 twoCoffees) = [] \<and>
   length (transactions (removeTransaction 1000 twoCoffees)) = length (transactions twoCoffees) - 2"
  using removeTransaction_removes_all [of 1000 twoCoffees]
  by (simp add: twoCoffees_transactions)

section \<open>Categories\<close>

lemma reachable_twoCoffees: "reachable twoCoffees"
  unfolding twoCoffees_def oneCoffee_def
  by (intro reachable.added reachable_userInput reachable.opened) (simp add: emptyTracker_def)

lemma reachable_categories:
  "reachable s \<Longrightarrow> \<forall>t\<in>set (transactions s). tx_category t \<noteq> []"
proof (induction rule: reachable.induct)
  case (opened s)
  then show ?case by simp
next
  case (filled s label rawAmount inputs category)
  then show ?case by simp
next
  case (added s now)
  then show ?case
    using addTransaction_appends [of now s] by auto
next
  case (removed s i)
  then show ?case
    by (simp add: transactions_removeTransaction)
qed

text \<open>
  C9.  A transaction built by \<open>addTransaction\<close> has a category that is not the empty
  string: the value of the select when there is one and it is not empty, and
  \<open>Uncategorized\<close> otherwise.  So no transaction of a reachable state has an empty
  category.
\<close>

theorem category_never_empty:
  "(\<forall>t s'. addTransaction now s = (Inr t, s') \<longrightarrow>
      tx_category t \<noteq> [] \<and>
      (categorySelect s = None \<or> categorySelect s = Some [] \<longrightarrow>
         tx_category t = js ''Uncategorized'')) \<and>
   (reachable s \<longrightarrow> (\<forall>t\<in>set (transactions s). tx_category t \<noteq> []))"
proof (intro conjI allI impI)
  fix t s'
  assume "addTransaction now s = (Inr t, s')"
  from addTransaction_Inr [OF this] show "tx_category t \<noteq> []"
    by (auto simp add: Uncategorized_not_empty split: option.split)
next
  fix t s'
  assume "addTransaction now s = (Inr t, s')"
    and none: "categorySelect s = None \<or> categorySelect s = Some []"
  from addTransaction_Inr [OF this(1)] none show "tx_category t = js ''Uncategorized''"
    by auto
next
  assume "reachable s"
  then show "\<forall>t\<in>set (transactions s). tx_category t \<noteq> []"
    by (rule reachable_categories)
qed

theorem category_never_empty_witness:
  "reachable twoCoffees \<and>
   list_all (\<lambda>t. tx_category t \<noteq> []) (transactions twoCoffees) \<and>
   categorySelect misc = None \<and>
   (\<exists>t s'. addTransaction 7 misc = (Inr t, s') \<and> tx_category t = js ''Uncategorized'')"
proof -
  have sel: "categorySelect misc = None"
    by (simp add: misc_def userInput_def)
  obtain t s' where add: "addTransaction 7 misc = (Inr t, s')"
    using addTransaction_misc by (metis prod.collapse)
  with category_never_empty [of 7 misc] sel have "tx_category t = js ''Uncategorized''"
    by blast
  with add have "\<exists>t s'. addTransaction 7 misc = (Inr t, s') \<and> tx_category t = js ''Uncategorized''"
    by blast
  moreover from category_never_empty [of 0 twoCoffees] reachable_twoCoffees
  have "list_all (\<lambda>t. tx_category t \<noteq> []) (transactions twoCoffees)"
    unfolding list_all_iff by blast
  ultimately show ?thesis
    using sel reachable_twoCoffees by blast
qed

section \<open>Identifiers\<close>

lemma reachableFresh_distinct:
  "reachableFresh s \<Longrightarrow> distinct (map tx_id (transactions s))"
proof (induction rule: reachableFresh.induct)
  case (openedFresh s)
  then show ?case by simp
next
  case (filledFresh s label rawAmount inputs category)
  then show ?case by simp
next
  case (addedFresh s now)
  then show ?case
    using addTransaction_appends [of now s] by auto
next
  case (removedFresh s i)
  then show ?case
    by (simp add: transactions_removeTransaction distinct_map_filter)
qed

text \<open>
  C6, as the code has it.  The identifier of a new transaction is the reading of the
  clock.  It differs from the identifiers in the sequence when that reading does, and
  the identifiers of a state reached through such submissions are pairwise distinct.
\<close>

theorem fresh_clock_distinct_ids:
  "(\<forall>t s'. addTransaction now s = (Inr t, s') \<longrightarrow> tx_id t = now) \<and>
   (reachableFresh s \<longrightarrow> distinct (map tx_id (transactions s)))"
proof (intro conjI allI impI)
  fix t s'
  assume "addTransaction now s = (Inr t, s')"
  from addTransaction_Inr [OF this] show "tx_id t = now"
    by simp
next
  assume "reachableFresh s"
  then show "distinct (map tx_id (transactions s))"
    by (rule reachableFresh_distinct)
qed

lemma reachableFresh_coffeeThenTea: "reachableFresh coffeeThenTea"
proof -
  have one: "reachableFresh oneCoffee"
    unfolding oneCoffee_def
    by (intro reachableFresh.addedFresh reachableFresh_userInput reachableFresh.openedFresh)
       (simp_all add: emptyTracker_def userInput_def)
  have "1001 \<notin> tx_id ` set (transactions oneCoffee)"
    by (simp add: oneCoffee_transactions)
  then show ?thesis
    unfolding coffeeThenTea_def
    by (intro reachableFresh.addedFresh reachableFresh_userInput one)
       (simp add: transactions_userInput)
qed

theorem fresh_clock_distinct_ids_witness:
  "reachableFresh coffeeThenTea \<and> distinct (map tx_id (transactions coffeeThenTea)) \<and>
   map tx_id (transactions coffeeThenTea) = [1000, 1001]"
  using fresh_clock_distinct_ids [of 0 coffeeThenTea] reachableFresh_coffeeThenTea
  by (simp add: coffeeThenTea_transactions)

text \<open>
  Two submissions within the same millisecond give two transactions with the same
  identifier.
\<close>

theorem duplicate_ids_counterexample:
  "reachable twoCoffees \<and> \<not> distinct (map tx_id (transactions twoCoffees))"
  using reachable_twoCoffees by (simp add: twoCoffees_transactions)

section \<open>Totals\<close>












section \<open>Loading\<close>

lemma JSON_parse_null: "JSON_parse (js ''null'') = Some JNull"
  by code_simp

lemma restore_absent: "st key = None \<Longrightarrow> restore st key = Inr (JArr [])"
  by (simp add: restore_def JSON_parse_null)

lemma restore_stored:
  "st key = Some stored \<Longrightarrow>
   restore st key =
     (case JSON_parse stored of
        None \<Rightarrow> Inl SyntaxError
      | Some v \<Rightarrow> Inr (if truthy v then v else JArr []))"
  by (simp add: restore_def)

lemma restore_fails_iff:
  "restore st key = Inl SyntaxError \<longleftrightarrow> (\<exists>stored. st key = Some stored \<and> JSON_parse stored = None)"
proof (cases "st key")
  case None
  then show ?thesis
    by (simp add: restore_absent)
next
  case (Some stored)
  then show ?thesis
    by (simp add: restore_stored split: option.split)
qed

text \<open>
  C1, as the code has it.  \<open>load\<close> fails with a SyntaxError exactly when the text
  stored under one of the two keys is not a JSON text.  A key that is not stored gives
  the empty array, and so does a stored \<open>null\<close>, \<open>false\<close>, \<open>0\<close> or \<open>""\<close>; any
  other JSON text gives the value it denotes.
\<close>

theorem load_absent_or_wellformed:
  "(load st = Inl SyntaxError \<longleftrightarrow>
      (\<exists>stored. (st (js ''transactions'') = Some stored \<or> st (js ''categories'') = Some stored) \<and>
             JSON_parse stored = None)) \<and>
   (st (js ''transactions'') = None \<and> st (js ''categories'') = None \<longrightarrow>
      load st = Inr (JArr [], JArr [])) \<and>
   (st (js ''transactions'') = Some stored \<and> JSON_parse stored = Some v \<and>
    st (js ''categories'') = None \<longrightarrow>
      load st = Inr (if truthy v then v else JArr [], JArr [])) \<and>
   (st (js ''transactions'') = None \<and>
    st (js ''categories'') = Some stored \<and> JSON_parse stored = Some v \<longrightarrow>
      load st = Inr (JArr [], if truthy v then v else JArr [])) \<and>
   (st (js ''transactions'') = Some stored \<and> JSON_parse stored = Some v \<and>
    st (js ''categories'') = Some other \<and> JSON_parse other = Some w \<longrightarrow>
      load st = Inr (if truthy v then v else JArr [], if truthy w then w else JArr []))"
proof (intro conjI impI)
  have "load st = Inl SyntaxError \<longleftrightarrow>
      restore st (js ''transactions'') = Inl SyntaxError \<or>
      restore st (js ''categories'') = Inl SyntaxError"
    by (auto simp add: load_def split: sum.splits) (metis (full_types) exception.exhaust)+
  then show "load st = Inl SyntaxError \<longleftrightarrow>
      (\<exists>stored. (st (js ''transactions'') = Some stored \<or> st (js ''categories'') = Some stored) \<and>
             JSON_parse stored = None)"
    unfolding restore_fails_iff by blast
qed (simp_all add: load_def restore_absent restore_stored)

lemma oneCoffee_stored:
  "localStorage oneCoffee (js ''transactions'') =
     Some (JSON_stringify (JArr (map transactionValue (transactions oneCoffee))))"
  unfolding oneCoffee_def by code_simp

lemma oneCoffee_parsed:
  "JSON_parse (JSON_stringify (JArr (map transactionValue (transactions oneCoffee)))) =
     Some (JArr (map transactionValue (transactions oneCoffee)))"
  unfolding oneCoffee_def by code_simp

lemma oneCoffee_no_categories: "localStorage oneCoffee (js ''categories'') = None"
  unfolding oneCoffee_def by code_simp

theorem load_absent_or_wellformed_witness:
  "load Map.empty = Inr (JArr [], JArr []) \<and>
   localStorage oneCoffee (js ''categories'') = None \<and>
   localStorage oneCoffee (js ''transactions'') =
     Some (JSON_stringify (JArr (map transactionValue (transactions oneCoffee)))) \<and>
   load (localStorage oneCoffee) =
     Inr (JArr (map transactionValue (transactions oneCoffee)), JArr [])"
proof -
  have "load Map.empty = Inr (JArr [], JArr [])"
    using load_absent_or_wellformed [of Map.empty] by simp
  moreover have "load (localStorage oneCoffee) =
      Inr (JArr (map transactionValue (transactions oneCoffee)), JArr [])"
    using load_absent_or_wellformed
      [of "localStorage oneCoffee"
          "JSON_stringify (JArr (map transactionValue (transactions oneCoffee)))"
          "JArr (map transactionValue (transactions oneCoffee))"]
      oneCoffee_stored oneCoffee_parsed oneCoffee_no_categories
    by simp
  ultimately show ?thesis
    using oneCoffee_stored oneCoffee_no_categories by simp
qed

text \<open>
  A store whose transactions entry is the text \<open>{\<close>: \<open>load\<close> raises a SyntaxError
  instead of substituting the empty sequence.
\<close>

theorem load_malformed_counterexample:
  "brokenStore (js ''transactions'') = Some (js ''{'') \<and> load brokenStore = Inl SyntaxError"
  unfolding brokenStore_def by code_simp

section \<open>Stored snapshot\<close>

lemma loan_transactions:
  "transactions loan =
     [\<lparr>tx_id = 1, tx_text = js ''Loan'', tx_amount = PosInf,
       tx_category = js ''Uncategorized''\<rparr>]"
  unfolding loan_def by code_simp

lemma loan_stored:
  "localStorage loan (js ''transactions'') =
     Some (js ''[{\"id\":1,\"text\":\"Loan\",\"amount\":null,\"category\":\"Uncategorized\"}]'')"
  unfolding loan_def by code_simp

lemma loan_reloaded:
  "load (localStorage loan) =
     Inr (JArr [JObj [(js ''id'', JNum (Fin 1)), (js ''text'', JStr (js ''Loan'')),
                      (js ''amount'', JNull),
                      (js ''category'', JStr (js ''Uncategorized''))]],
          JArr [])"
  unfolding loan_def by code_simp

lemma loan_categories: "categories loan = []"
  unfolding loan_def by code_simp

text \<open>
  C8 at the amount \<open>Infinity\<close>.  \<open>addTransaction\<close> accepts the amount text
  \<open>Infinity\<close> (it is not NaN) and stores the amount \<open>+Infinity\<close>;
  \<open>JSON.stringify\<close> writes that amount as \<open>null\<close>, so the transaction that
  \<open>load\<close> reads back has the amount \<open>null\<close> and is not the one in the ledger.
\<close>

theorem infinite_amount_not_restored:
  "fst (addTransaction 1
      (userInput (js ''Loan'') (js ''Infinity'') (js ''income'') None emptyTracker)) =
     Inr \<lparr>tx_id = 1, tx_text = js ''Loan'', tx_amount = PosInf,
          tx_category = js ''Uncategorized''\<rparr> \<and>
   localStorage loan (js ''transactions'') =
     Some (js ''[{\"id\":1,\"text\":\"Loan\",\"amount\":null,\"category\":\"Uncategorized\"}]'') \<and>
   load (localStorage loan) =
     Inr (JArr [JObj [(js ''id'', JNum (Fin 1)), (js ''text'', JStr (js ''Loan'')),
                      (js ''amount'', JNull),
                      (js ''category'', JStr (js ''Uncategorized''))]],
          JArr []) \<and>
   load (localStorage loan) \<noteq> Inr (JArr (map transactionValue (transactions loan)), JArr (categories loan))"
proof (intro conjI)
  show "fst (addTransaction 1
      (userInput (js ''Loan'') (js ''Infinity'') (js ''income'') None emptyTracker)) =
     Inr \<lparr>tx_id = 1, tx_text = js ''Loan'', tx_amount = PosInf,
          tx_category = js ''Uncategorized''\<rparr>"
    by code_simp
  show "load (localStorage loan) \<noteq>
      Inr (JArr (map transactionValue (transactions loan)), JArr (categories loan))"
    by (simp add: loan_reloaded loan_transactions transactionValue_def)
qed (rule loan_stored loan_reloaded)+

end
